theory Spec2Isabelle
  imports Main "HOL-Library.Char_ord" "HOL-Library.List_Lexorder" "HOL-Library.AList"
    "HOL-Library.Sublist"
begin

section \<open>The filesystem under the registry\<close>

text \<open>
  The registry keeps all of its state on disk, below \<open>BasePath\<close>. A path is the list of
  its components; the empty path is the working directory of the process, which always
  exists. The filesystem is an association list from paths to nodes, read through
  \<open>map_of\<close>, so that a directory listing can be computed.
\<close>

type_synonym byte = nat
type_synonym path = "string list"

datatype node = File "byte list" | Dir

type_synonym fs = "(path \<times> node) list"

datatype cause = ENOENT | ENOTDIR | EISDIR | ENOTEMPTY | EINVAL | EEXIST | EIO | NoFile path
  | DecodeError | ParseError

definition lookup :: "fs \<Rightarrow> path \<Rightarrow> node option" where
  "lookup fs p = (if p = [] then Some Dir else map_of fs p)"

text \<open>The names of the entries of a directory, sorted by filename as \<open>ioutil.ReadDir\<close> does.\<close>

definition entries :: "fs \<Rightarrow> path \<Rightarrow> string list" where
  "entries fs dir =
     sort (remdups (map (\<lambda>kv. last (fst kv)) (filter (\<lambda>kv. fst kv \<noteq> [] \<and> butlast (fst kv) = dir) fs)))"

record FileInfo =
  Name :: string
  Size :: int
  IsDir :: bool

text \<open>The size of a directory entry is system dependent; 4096 is what Linux reports.\<close>

definition fileinfo :: "fs \<Rightarrow> path \<Rightarrow> string \<Rightarrow> FileInfo" where
  "fileinfo fs dir n =
     (case lookup fs (dir @ [n]) of
        Some (File bs) \<Rightarrow> \<lparr>Name = n, Size = int (length bs), IsDir = False\<rparr>
      | _ \<Rightarrow> \<lparr>Name = n, Size = 4096, IsDir = True\<rparr>)"

text \<open>
  The error of a system call on a path that is absent: \<open>ENOTDIR\<close> when a proper prefix
  of the path is a file, \<open>ENOENT\<close> otherwise (\<open>os.IsNotExist\<close> holds of \<open>ENOENT\<close> only).
\<close>

definition is_file :: "node option \<Rightarrow> bool" where
  "is_file v = (case v of Some (File _) \<Rightarrow> True | _ \<Rightarrow> False)"

definition missing :: "fs \<Rightarrow> path \<Rightarrow> cause" where
  "missing fs p = (if list_ex (\<lambda>q. is_file (lookup fs q)) (prefixes (butlast p)) then ENOTDIR else ENOENT)"

definition ReadDir :: "fs \<Rightarrow> path \<Rightarrow> cause + FileInfo list" where
  "ReadDir fs dir =
     (case lookup fs dir of
        None \<Rightarrow> Inl (missing fs dir)
      | Some (File _) \<Rightarrow> Inl ENOTDIR
      | Some Dir \<Rightarrow> Inr (map (fileinfo fs dir) (entries fs dir)))"

text \<open>\<open>PickupFileinfo\<close> of internal/registry/registry.go: the first entry of the listing.\<close>

definition PickupFileinfo :: "fs \<Rightarrow> path \<Rightarrow> cause + FileInfo" where
  "PickupFileinfo fs dir =
     (case ReadDir fs dir of
        Inl e \<Rightarrow> Inl e
      | Inr fis \<Rightarrow> (if length fis = 0 then Inl (NoFile dir) else Inr (fis ! 0)))"

section \<open>Paths\<close>

text \<open>
  \<open>filepath.Join\<close> joins its non-empty elements with the separator and cleans the result.
  On component lists: every element is split at \<open>/\<close>, and empty components and \<open>.\<close> are
  dropped. A component \<open>..\<close> is not resolved: the grammars of name, tag, digest and reference
  admit none.
\<close>

fun components :: "string \<Rightarrow> string list" where
  "components [] = [[]]"
| "components (c # cs) =
     (if c = CHR ''/'' then [] # components cs
      else (case components cs of [] \<Rightarrow> [[c]] | x # xs \<Rightarrow> (c # x) # xs))"

definition splitPath :: "string \<Rightarrow> path" where
  "splitPath s = filter (\<lambda>x. x \<noteq> [] \<and> x \<noteq> ''.'') (components s)"

definition Join :: "string list \<Rightarrow> path" where
  "Join elems = concat (map splitPath elems)"

text \<open>\<open>filepath.Join(dir, s)\<close> for a \<open>dir\<close> that is a joined path already.\<close>

definition JoinPath :: "path \<Rightarrow> string \<Rightarrow> path" where
  "JoinPath dir s = dir @ splitPath s"

definition BasePath :: string where
  "BasePath = ''testdata''"

definition PathJoinWithBase :: "string \<Rightarrow> string list \<Rightarrow> path" where
  "PathJoinWithBase name p = Join ([BasePath, name] @ p)"

section \<open>System calls\<close>

definition put :: "fs \<Rightarrow> path \<Rightarrow> node \<Rightarrow> fs" where
  "put fs p v = AList.update p v fs"

definition del :: "fs \<Rightarrow> path \<Rightarrow> fs" where
  "del fs p = AList.delete p fs"

definition Stat :: "fs \<Rightarrow> path \<Rightarrow> cause + node" where
  "Stat fs p = (case lookup fs p of None \<Rightarrow> Inl (missing fs p) | Some v \<Rightarrow> Inr v)"

definition Mkdir :: "fs \<Rightarrow> path \<Rightarrow> fs \<times> cause option" where
  "Mkdir fs p =
     (case lookup fs (butlast p) of
        None \<Rightarrow> (fs, Some (missing fs p))
      | Some (File _) \<Rightarrow> (fs, Some ENOTDIR)
      | Some Dir \<Rightarrow> (if lookup fs p = None then (put fs p Dir, None) else (fs, Some EEXIST)))"

text \<open>
  \<open>os.MkdirAll\<close>: nothing to do when the path is a directory, an error when it is a file;
  otherwise the parent is made first, then the directory itself. The recursion runs over
  the reversed path, so that the parent is the tail.
\<close>

fun MkdirAllR :: "fs \<Rightarrow> path \<Rightarrow> fs \<times> cause option" where
  "MkdirAllR fs [] = (fs, None)"
| "MkdirAllR fs (c # rp) =
     (case lookup fs (rev (c # rp)) of
        Some Dir \<Rightarrow> (fs, None)
      | Some (File _) \<Rightarrow> (fs, Some ENOTDIR)
      | None \<Rightarrow>
          (case MkdirAllR fs rp of
             (fs', Some e) \<Rightarrow> (fs', Some e)
           | (fs', None) \<Rightarrow> Mkdir fs' (rev (c # rp))))"

definition MkdirAll :: "fs \<Rightarrow> path \<Rightarrow> fs \<times> cause option" where
  "MkdirAll fs p = MkdirAllR fs (rev p)"

text \<open>\<open>os.Create\<close>: the file is created or truncated; its parent must be a directory.\<close>

definition Create :: "fs \<Rightarrow> path \<Rightarrow> cause + fs" where
  "Create fs p =
     (case lookup fs (butlast p) of
        None \<Rightarrow> Inl (missing fs p)
      | Some (File _) \<Rightarrow> Inl ENOTDIR
      | Some Dir \<Rightarrow>
          (case lookup fs p of
             Some Dir \<Rightarrow> Inl EISDIR
           | _ \<Rightarrow> Inr (put fs p (File []))))"

text \<open>\<open>os.Open\<close> of an existing file or directory succeeds.\<close>

definition Open :: "fs \<Rightarrow> path \<Rightarrow> cause + node" where
  "Open fs p = Stat fs p"

text \<open>
  \<open>io.Copy\<close> from an open handle into the response: the bytes of a file; reading a
  directory fails at once, and the handlers drop the error of \<open>io.Copy\<close>.
\<close>

definition contents :: "node \<Rightarrow> byte list" where
  "contents v = (case v of File bs \<Rightarrow> bs | Dir \<Rightarrow> [])"

text \<open>
  \<open>os.Rename\<close>: a file replaces a file of the new name; a directory moves with all below
  it, onto nothing or onto an empty directory.
\<close>

definition move_tree :: "fs \<Rightarrow> path \<Rightarrow> path \<Rightarrow> fs" where
  "move_tree fs old new =
     map (\<lambda>kv. if prefix old (fst kv) then (new @ drop (length old) (fst kv), snd kv) else kv)
       (del fs new)"

definition Rename :: "fs \<Rightarrow> path \<Rightarrow> path \<Rightarrow> cause + fs" where
  "Rename fs old new =
     (case lookup fs old of
        None \<Rightarrow> Inl (missing fs old)
      | Some v \<Rightarrow>
          (if old = new then Inr fs
           else (case lookup fs (butlast new) of
              None \<Rightarrow> Inl (missing fs new)
            | Some (File _) \<Rightarrow> Inl ENOTDIR
            | Some Dir \<Rightarrow>
                (case v of
                   File bs \<Rightarrow>
                     (case lookup fs new of
                        Some Dir \<Rightarrow> Inl EISDIR
                      | _ \<Rightarrow> Inr (put (del fs old) new (File bs)))
                 | Dir \<Rightarrow>
                     (if prefix old new then Inl EINVAL
                      else (case lookup fs new of
                         Some (File _) \<Rightarrow> Inl ENOTDIR
                       | Some Dir \<Rightarrow>
                           (if entries fs new = [] then Inr (move_tree fs old new)
                            else Inl ENOTEMPTY)
                       | None \<Rightarrow> Inr (move_tree fs old new)))))))"

text \<open>\<open>os.Remove\<close>: a file, or an empty directory.\<close>

definition Remove :: "fs \<Rightarrow> path \<Rightarrow> fs \<times> cause option" where
  "Remove fs p =
     (case lookup fs p of
        None \<Rightarrow> (fs, Some (missing fs p))
      | Some (File _) \<Rightarrow> (del fs p, None)
      | Some Dir \<Rightarrow>
          (if p = [] then (fs, Some EINVAL)
           else if entries fs p = [] then (del fs p, None)
           else (fs, Some ENOTEMPTY)))"

section \<open>Libraries outside the repository\<close>

text \<open>
  \<open>ocispec.Descriptor\<close> and the \<open>Manifest\<close> struct of main.go. Modelled from the spec:
  the descriptor type is declared in the image-spec library; its fields are the media
  type, the digest, the size and the optional annotations.
\<close>

record Descriptor =
  MediaType :: string
  Digest :: string
  DSize :: int
  Annotations :: "(string \<times> string) list"

record Manifest =
  SchemaVersion :: int
  ManifestMediaType :: string
  Config :: Descriptor
  Layers :: "Descriptor list"

text \<open>
  The functions of other libraries that the handlers call are parameters of the model:
  \<open>digest.Parse\<close> accepts a string or not (the parsed digest is the string itself),
  \<open>filetype.IsArchive\<close> classifies a buffer, and \<open>encoding/json\<close> decodes a body into a
  \<open>Manifest\<close> and encodes one.
\<close>

record libs =
  digestValid :: "string \<Rightarrow> bool"
  IsArchive :: "byte list \<Rightarrow> bool"
  Decode :: "byte list \<Rightarrow> cause + Manifest"
  Encode :: "Manifest \<Rightarrow> byte list"

definition digest_Parse :: "libs \<Rightarrow> string \<Rightarrow> cause + string" where
  "digest_Parse L s = (if digestValid L s then Inr s else Inl ParseError)"

section \<open>Request bodies\<close>

text \<open>
  A request body is a stream: \<open>first\<close> is the number of bytes that the first \<open>Read\<close>
  is ready to deliver, \<open>payload\<close> the bytes of the whole body, and \<open>err_at\<close>, when set to
  \<open>k\<close>, breaks the stream with an error once \<open>k\<close> bytes have been delivered.
\<close>

record reader =
  first :: nat
  payload :: "byte list"
  err_at :: "nat option"

definition deliverable :: "reader \<Rightarrow> byte list" where
  "deliverable r = (case err_at r of None \<Rightarrow> payload r | Some k \<Rightarrow> take k (payload r))"

definition broken :: "reader \<Rightarrow> bool" where
  "broken r = (case err_at r of None \<Rightarrow> False | Some k \<Rightarrow> k < length (payload r))"

text \<open>\<open>r.Read(buffer)\<close> on a buffer of 8192 bytes: the count, or a non-EOF error.\<close>

definition Read_first :: "reader \<Rightarrow> cause + nat" where
  "Read_first r =
     (if broken r \<and> deliverable r = [] then Inl EIO
      else Inr (min (min (first r) 8192) (length (deliverable r))))"

section \<open>The content store (internal/registry/registry.go)\<close>

definition detectExt :: "libs \<Rightarrow> byte list \<Rightarrow> string" where
  "detectExt L buf = (if IsArchive L buf then ''.tar.gz'' else ''.json'')"

text \<open>
  \<open>CreateLayer\<close>: the extension is detected on the whole buffer of 8192 bytes, of which the
  first \<open>n\<close> were filled by the first \<open>Read\<close>; the file receives \<open>buffer[:n]\<close> and then the
  rest of the stream. When the stream breaks, the bytes copied so far stay in the file.
\<close>

text \<open>The buffer of 8192 zero bytes after a first \<open>Read\<close> that delivered \<open>n\<close> bytes.\<close>

definition buffer_after :: "reader \<Rightarrow> nat \<Rightarrow> byte list" where
  "buffer_after r n = take n (deliverable r) @ replicate (8192 - n) 0"

definition CreateLayer :: "libs \<Rightarrow> fs \<Rightarrow> reader \<Rightarrow> path \<Rightarrow> fs \<times> (cause + int)" where
  "CreateLayer L fs r path =
     (case Read_first r of
        Inl e \<Rightarrow> (fs, Inl e)
      | Inr n \<Rightarrow>
          (let buffer = buffer_after r n;
               filePath = JoinPath path (''layer'' @ detectExt L buffer)
           in (case Create fs filePath of
                 Inl e \<Rightarrow> (fs, Inl e)
               | Inr fs1 \<Rightarrow>
                   (let written = take n buffer @ drop n (deliverable r);
                        fs2 = put fs1 filePath (File written)
                    in if broken r then (fs2, Inl EIO)
                       else (fs2, Inr (int (length written)))))))"

text \<open>
  The buffer on which \<open>CreateLayer\<close> detects the extension, and the name of the file that it
  writes, for a given request body.
\<close>

definition first_buffer :: "reader \<Rightarrow> byte list" where
  "first_buffer r = buffer_after r (case Read_first r of Inl _ \<Rightarrow> 0 | Inr n \<Rightarrow> n)"

definition layer_name :: "libs \<Rightarrow> reader \<Rightarrow> string" where
  "layer_name L r = ''layer'' @ detectExt L (first_buffer r)"

text \<open>\<open>filepath.Ext\<close>: the suffix from the last dot of the last path element on.\<close>

fun Ext_rev :: "string \<Rightarrow> string \<Rightarrow> string" where
  "Ext_rev [] acc = []"
| "Ext_rev (c # cs) acc =
     (if c = CHR ''/'' then []
      else if c = CHR ''.'' then c # acc
      else Ext_rev cs (c # acc))"

definition Ext :: "string \<Rightarrow> string" where
  "Ext filename = Ext_rev (rev filename) []"


section \<open>Responses and errors\<close>

text \<open>\<open>http.Header.Set\<close> stores a value under the canonical form of the key.\<close>

definition toUpper :: "char \<Rightarrow> char" where
  "toUpper c =
     (case map_of (zip ''abcdefghijklmnopqrstuvwxyz'' ''ABCDEFGHIJKLMNOPQRSTUVWXYZ'') c of
        Some u \<Rightarrow> u | None \<Rightarrow> c)"

definition toLower :: "char \<Rightarrow> char" where
  "toLower c =
     (case map_of (zip ''ABCDEFGHIJKLMNOPQRSTUVWXYZ'' ''abcdefghijklmnopqrstuvwxyz'') c of
        Some l \<Rightarrow> l | None \<Rightarrow> c)"

fun canon :: "bool \<Rightarrow> string \<Rightarrow> string" where
  "canon up [] = []"
| "canon up (c # cs) = (if up then toUpper c else toLower c) # canon (c = CHR ''-'') cs"

definition CanonicalMIMEHeaderKey :: "string \<Rightarrow> string" where
  "CanonicalMIMEHeaderKey k = canon True k"

type_synonym header = "(string \<times> string) list"

definition Set :: "header \<Rightarrow> string \<Rightarrow> string \<Rightarrow> header" where
  "Set h k v = AList.update (CanonicalMIMEHeaderKey k) v h"

definition Get :: "header \<Rightarrow> string \<Rightarrow> string option" where
  "Get h k = map_of h (CanonicalMIMEHeaderKey k)"

record response =
  status :: nat
  headers :: header
  body :: "byte list"

text \<open>The error kinds of the registry; an error wraps its cause under a kind or a status.\<close>

datatype code = BlobUnknown | BlobUploadInvalid | BlobUploadUnknown | DigestInvalid
  | ManifestInvalid | ManifestUnknown | NameInvalid | NameUnknown | SizeInvalid | TagInvalid
  | Unauthorized | Denied | Unsupported

datatype error = Plain cause | WithCode code cause | WithStatusCode nat cause

text \<open>\<open>strconv.FormatInt(size, 10)\<close> and the verb \<open>%d\<close>.\<close>

function FormatNat :: "nat \<Rightarrow> string" where
  "FormatNat n =
     (if n < 10 then [''0123456789'' ! n]
      else FormatNat (n div 10) @ [''0123456789'' ! (n mod 10)])"
  by pat_completeness auto
termination
  by (relation "measure id") auto

definition FormatInt :: "int \<Rightarrow> string" where
  "FormatInt i = (if i < 0 then ''-'' @ FormatNat (nat (- i)) else FormatNat (nat i))"

section \<open>The handlers (main.go)\<close>

text \<open>
  A handler takes the filesystem and the parameters that the router has bound, and returns
  the filesystem with the response written, or the error returned. A handler that never
  calls \<open>WriteHeader\<close> answers 200.
\<close>

definition DeterminingSupport :: "fs \<Rightarrow> fs \<times> (error + response)" where
  "DeterminingSupport fs =
     (let h = Set [] ''Docker-Distribution-Api-Version'' ''registry/2.0'';
          h = Set h ''X-Content-Type-Options'' ''nosniff'';
          h = Set h ''Content-Type'' ''application/json''
      in (fs, Inr \<lparr>status = 200, headers = h, body = [123, 125]\<rparr>))"

definition PullingBlobs :: "libs \<Rightarrow> fs \<Rightarrow> string \<Rightarrow> string \<Rightarrow> fs \<times> (error + response)" where
  "PullingBlobs L fs name dq =
     (case digest_Parse L dq of
        Inl e \<Rightarrow> (fs, Inl (WithCode DigestInvalid e))
      | Inr dgst \<Rightarrow>
          (let dir = PathJoinWithBase name [dgst]
           in if Stat fs dir = Inl ENOENT then (fs, Inl (WithCode BlobUnknown ENOENT))
              else (case PickupFileinfo fs dir of
                 Inl e \<Rightarrow> (fs, Inl (Plain e))
               | Inr fi \<Rightarrow>
                   (let filename = Name fi;
                        h = (if suffix ''.json'' filename
                             then Set (Set (Set [] ''Docker-Distribution-Api-Version'' ''registry/2.0'')
                                    ''X-Content-Type-Options'' ''nosniff'')
                                    ''content-type'' ''application/octet-stream''
                             else Set (Set [] ''accept-ranges'' ''bytes'')
                                    ''content-type'' ''application/octet-stream'');
                        path = JoinPath dir filename
                    in (case Open fs path of
                          Inl e \<Rightarrow> (fs, Inl (Plain e))
                        | Inr f \<Rightarrow>
                            (fs, Inr \<lparr>status = 200, headers = h, body = contents f\<rparr>))))))"

definition PullingManifests :: "fs \<Rightarrow> string \<Rightarrow> string \<Rightarrow> fs \<times> (error + response)" where
  "PullingManifests fs name tag =
     (let manifest = PathJoinWithBase name [tag, ''manifest.json'']
      in if Stat fs manifest = Inl ENOENT then (fs, Inl (WithCode ManifestUnknown ENOENT))
         else (case Open fs manifest of
            Inl e \<Rightarrow> (fs, Inl (Plain e))
          | Inr f \<Rightarrow>
              (let h = Set [] ''Docker-Distribution-Api-Version'' ''registry/2.0'';
                   h = Set h ''X-Content-Type-Options'' ''nosniff'';
                   h = Set h ''Content-Type'' ''application/vnd.docker.distribution.manifest.v2+json''
               in (fs, Inr \<lparr>status = 200, headers = h, body = contents f\<rparr>))))"

text \<open>\<open>PushBlob\<close>: \<open>uuid\<close> is the string that \<open>uuid.New()\<close> has drawn.\<close>

definition PushBlob :: "fs \<Rightarrow> string \<Rightarrow> string \<Rightarrow> fs \<times> (error + response)" where
  "PushBlob fs name uuid =
     (let fs1 = fst (MkdirAll fs (PathJoinWithBase name []));
          location = ''/v2/'' @ name @ ''/blobs/uploads/'' @ uuid;
          h = Set [] ''Location'' location;
          h = Set h ''Docker-Distribution-Api-Version'' ''registry/2.0'';
          h = Set h ''X-Content-Type-Options'' ''nosniff''
      in (fs1, Inr \<lparr>status = 202, headers = h, body = []\<rparr>))"

definition PushBlobPatch :: "libs \<Rightarrow> fs \<Rightarrow> string \<Rightarrow> string \<Rightarrow> reader \<Rightarrow> fs \<times> (error + response)" where
  "PushBlobPatch L fs name reference r =
     (let path = PathJoinWithBase name [reference];
          fs1 = fst (MkdirAll fs path)
      in (case CreateLayer L fs1 r path of
            (fs2, Inl e) \<Rightarrow> (fs2, Inl (Plain e))
          | (fs2, Inr sz) \<Rightarrow>
              (let location = ''/v2/'' @ name @ ''/blobs/uploads/'' @ reference;
                   h = Set [] ''Location'' location;
                   h = Set h ''Docker-Upload-UUID'' reference;
                   h = Set h ''Range'' (''0-'' @ FormatInt sz)
               in (fs2, Inr \<lparr>status = 202, headers = h, body = []\<rparr>))))"

text \<open>\<open>PushBlobPut\<close>: \<open>dq\<close> is the value of the query parameter \<open>digest\<close>.\<close>

definition PushBlobPut :: "libs \<Rightarrow> fs \<Rightarrow> string \<Rightarrow> string \<Rightarrow> string \<Rightarrow> fs \<times> (error + response)" where
  "PushBlobPut L fs name reference dq =
     (case digest_Parse L dq of
        Inl e \<Rightarrow> (fs, Inl (WithCode DigestInvalid e))
      | Inr dgst \<Rightarrow>
          (let newDir = PathJoinWithBase name [dgst];
               fs1 = fst (MkdirAll fs newDir);
               uuid = reference;
               oldDir = PathJoinWithBase name [uuid]
           in (case PickupFileinfo fs1 oldDir of
                 Inl e \<Rightarrow> (fs1, Inl (Plain e))
               | Inr fi \<Rightarrow>
                   (let filename = Name fi;
                        oldpath = JoinPath oldDir filename;
                        newpath = JoinPath newDir filename
                    in (case Rename fs1 oldpath newpath of
                          Inl e \<Rightarrow> (fs1, Inl (Plain e))
                        | Inr fs2 \<Rightarrow>
                            (fst (Remove fs2 oldDir),
                             Inr \<lparr>status = 201, headers = [], body = []\<rparr>))))))"

definition PushBlobHead :: "libs \<Rightarrow> fs \<Rightarrow> string \<Rightarrow> string \<Rightarrow> fs \<times> (error + response)" where
  "PushBlobHead L fs name dq =
     (case digest_Parse L dq of
        Inl e \<Rightarrow> (fs, Inl (WithCode DigestInvalid e))
      | Inr dgst \<Rightarrow>
          (let dir = PathJoinWithBase name [dgst]
           in if Stat fs dir = Inl ENOENT then (fs, Inl (WithStatusCode 404 ENOENT))
              else (case PickupFileinfo fs dir of
                 Inl e \<Rightarrow> (fs, Inl (Plain e))
               | Inr fi \<Rightarrow>
                   (let filename = Name fi;
                        sz = Size fi;
                        ext = Ext filename;
                        h = (if ext = ''.json''
                             then Set [] ''Content-Type''
                                    ''application/vnd.docker.distribution.manifest.v2+json''
                             else Set [] ''Content-Type''
                                    ''application/vnd.docker.image.rootfs.diff.tar.gzip'');
                        h = Set h ''Docker-Content-Digest'' dgst;
                        h = Set h ''Content-Length'' (FormatInt sz);
                        h = Set h ''Docker-Distribution-Api-Version'' ''registry/2.0'';
                        h = Set h ''X-Content-Type-Options'' ''nosniff''
                    in (fs, Inr \<lparr>status = 202, headers = h, body = []\<rparr>)))))"

text \<open>\<open>PushManifestPut\<close>: \<open>bs\<close> is the request body as the JSON decoder reads it.\<close>

definition PushManifestPut :: "libs \<Rightarrow> fs \<Rightarrow> string \<Rightarrow> string \<Rightarrow> byte list \<Rightarrow> fs \<times> (error + response)" where
  "PushManifestPut L fs name tag bs =
     (case Decode L bs of
        Inl e \<Rightarrow> (fs, Inl (WithCode ManifestInvalid e))
      | Inr m \<Rightarrow>
          (let path = PathJoinWithBase name [tag];
               fs1 = fst (MkdirAll fs path);
               path = JoinPath path ''manifest.json''
           in (case Create fs1 path of
                 Inl e \<Rightarrow> (fs1, Inl (WithCode TagInvalid e))
               | Inr fs2 \<Rightarrow>
                   (put fs2 path (File (Encode L m)),
                    Inr \<lparr>status = 201,
                         headers = Set [] ''Docker-Content-Digest'' (Digest (Config m)),
                         body = []\<rparr>))))"

section \<open>Path grammar, router and error adapter\<close>

text \<open>
  Modelled from the spec: the package \<open>internal/grammar\<close> is not among the sources. A name
  is a sequence of components \<open>[a-z0-9]+(?:[._-][a-z0-9]+)*\<close> separated by \<open>/\<close>; a tag is
  \<open>[A-Za-z0-9_][A-Za-z0-9._-]{0,127}\<close>; a digest is \<open><algo>:<hex>\<close> with a known hash name
  and lowercase hexadecimal digits; a reference is a tag or a digest.
\<close>

definition lower_alnum :: "char \<Rightarrow> bool" where
  "lower_alnum c = (c \<in> set ''abcdefghijklmnopqrstuvwxyz0123456789'')"

definition word_char :: "char \<Rightarrow> bool" where
  "word_char c = (lower_alnum c \<or> c \<in> set ''ABCDEFGHIJKLMNOPQRSTUVWXYZ_'')"

fun name_component :: "bool \<Rightarrow> string \<Rightarrow> bool" where
  "name_component prev [] = prev"
| "name_component prev (c # cs) =
     (if lower_alnum c then name_component True cs
      else if c \<in> set ''._-'' \<and> prev then name_component False cs
      else False)"

definition grammar_Name :: "string \<Rightarrow> bool" where
  "grammar_Name s = list_all (name_component False) (components s)"

definition grammar_Tag :: "string \<Rightarrow> bool" where
  "grammar_Tag s =
     (case s of
        [] \<Rightarrow> False
      | c # cs \<Rightarrow> word_char c \<and> list_all (\<lambda>x. word_char x \<or> x \<in> set ''.-'') cs \<and> length cs \<le> 127)"

definition grammar_Digest :: "string \<Rightarrow> bool" where
  "grammar_Digest s =
     (let algo = takeWhile (\<lambda>c. c \<noteq> CHR '':'') s;
          rest = dropWhile (\<lambda>c. c \<noteq> CHR '':'') s
      in algo \<in> set [''sha256'', ''sha384'', ''sha512''] \<and> rest \<noteq> [] \<and> tl rest \<noteq> [] \<and>
         list_all (\<lambda>c. c \<in> set ''0123456789abcdef'') (tl rest))"

definition grammar_Reference :: "string \<Rightarrow> bool" where
  "grammar_Reference s = (grammar_Tag s \<or> grammar_Digest s)"

text \<open>
  Modelled from the spec: the router is a library. A pattern \<open>/v2/{name}<mid>{seg}\<close>
  matches a path that splits into a name and a last segment, both in their grammars.
\<close>

definition match_route :: "string \<Rightarrow> (string \<Rightarrow> bool) \<Rightarrow> string \<Rightarrow> (string \<times> string) option" where
  "match_route mid seg_ok p =
     (if prefix ''/v2/'' p
      then find (\<lambda>ns. grammar_Name (fst ns) \<and> seg_ok (snd ns))
             (map (\<lambda>i. (take i (drop 4 p), drop (i + length mid) (drop 4 p)))
                (filter (\<lambda>i. prefix mid (drop i (drop 4 p))) [0..<length p]))
      else None)"

text \<open>
  Modelled from the spec: the adapter \<open>Handler\<close> and the package \<open>internal/errors\<close> are not
  among the sources. An error of a known kind is sent as the envelope with the status of
  the kind, an error with a status as that status, any other error as 500 without envelope.
\<close>

datatype wire = Sent response | Envelope nat string | Bare nat

definition code_status :: "code \<Rightarrow> nat" where
  "code_status c =
     (case c of
        BlobUnknown \<Rightarrow> 404 | BlobUploadInvalid \<Rightarrow> 400 | BlobUploadUnknown \<Rightarrow> 404
      | DigestInvalid \<Rightarrow> 400 | ManifestInvalid \<Rightarrow> 400 | ManifestUnknown \<Rightarrow> 404
      | NameInvalid \<Rightarrow> 400 | NameUnknown \<Rightarrow> 404 | SizeInvalid \<Rightarrow> 400 | TagInvalid \<Rightarrow> 400
      | Unauthorized \<Rightarrow> 401 | Denied \<Rightarrow> 403 | Unsupported \<Rightarrow> 405)"

definition code_string :: "code \<Rightarrow> string" where
  "code_string c =
     (case c of
        BlobUnknown \<Rightarrow> ''BLOB_UNKNOWN'' | BlobUploadInvalid \<Rightarrow> ''BLOB_UPLOAD_INVALID''
      | BlobUploadUnknown \<Rightarrow> ''BLOB_UPLOAD_UNKNOWN'' | DigestInvalid \<Rightarrow> ''DIGEST_INVALID''
      | ManifestInvalid \<Rightarrow> ''MANIFEST_INVALID'' | ManifestUnknown \<Rightarrow> ''MANIFEST_UNKNOWN''
      | NameInvalid \<Rightarrow> ''NAME_INVALID'' | NameUnknown \<Rightarrow> ''NAME_UNKNOWN''
      | SizeInvalid \<Rightarrow> ''SIZE_INVALID'' | TagInvalid \<Rightarrow> ''TAG_INVALID''
      | Unauthorized \<Rightarrow> ''UNAUTHORIZED'' | Denied \<Rightarrow> ''DENIED'' | Unsupported \<Rightarrow> ''UNSUPPORTED'')"

definition Handler :: "fs \<times> (error + response) \<Rightarrow> fs \<times> wire" where
  "Handler out =
     (case snd out of
        Inr r \<Rightarrow> (fst out, Sent r)
      | Inl (WithCode c e) \<Rightarrow> (fst out, Envelope (code_status c) (code_string c))
      | Inl (WithStatusCode n e) \<Rightarrow> (fst out, Bare n)
      | Inl (Plain e) \<Rightarrow> (fst out, Bare 500))"

text \<open>
  The routes that \<open>main\<close> registers with a handler, in its order. A request is its method,
  its path, the value of its query parameter \<open>digest\<close> and its body; \<open>uuid\<close> is the string
  that a POST draws. A request that no route matches is answered 404 with an empty body.
\<close>

record request =
  rmethod :: string
  rpath :: string
  digest_query :: string
  rbody :: reader

definition serve :: "libs \<Rightarrow> string \<Rightarrow> fs \<Rightarrow> request \<Rightarrow> fs \<times> wire" where
  "serve L uuid fs rq =
     (let m = rmethod rq; p = rpath rq
      in if m = ''GET'' \<and> p = ''/v2/'' then Handler (DeterminingSupport fs)
         else (case (if m = ''GET'' then match_route ''/blobs/'' grammar_Digest p else None) of
            Some (name, d) \<Rightarrow> Handler (PullingBlobs L fs name d)
          | None \<Rightarrow>
         (case (if m = ''GET'' then match_route ''/manifests/'' grammar_Reference p else None) of
            Some (name, tag) \<Rightarrow> Handler (PullingManifests fs name tag)
          | None \<Rightarrow>
         (case (if m = ''POST'' then match_route ''/blobs/uploads/'' (\<lambda>s. s = []) p else None) of
            Some (name, _) \<Rightarrow> Handler (PushBlob fs name uuid)
          | None \<Rightarrow>
         (case (if m = ''PATCH'' then match_route ''/blobs/uploads/'' grammar_Reference p else None) of
            Some (name, reference) \<Rightarrow> Handler (PushBlobPatch L fs name reference (rbody rq))
          | None \<Rightarrow>
         (case (if m = ''PUT'' then match_route ''/blobs/uploads/'' grammar_Reference p else None) of
            Some (name, reference) \<Rightarrow> Handler (PushBlobPut L fs name reference (digest_query rq))
          | None \<Rightarrow>
         (case (if m = ''HEAD'' then match_route ''/blobs/'' grammar_Digest p else None) of
            Some (name, d) \<Rightarrow> Handler (PushBlobHead L fs name d)
          | None \<Rightarrow>
         (case (if m = ''PUT'' then match_route ''/manifests/'' grammar_Tag p else None) of
            Some (name, tag) \<Rightarrow>
              Handler (PushManifestPut L fs name tag (deliverable (rbody rq)))
          | None \<Rightarrow> (fs, Bare 404)))))))))"

section \<open>Stand-ins for the libraries, to run the definitions\<close>

text \<open>
  Modelled from the spec: the magic numbers that classify a buffer as an archive (gzip
  \<open>1F 8B\<close>, xz \<open>FD 37 7A 58 5A\<close>, zstd \<open>28 B5 2F FD\<close>, the tar header at offset 257).
\<close>

definition magic_archive :: "byte list \<Rightarrow> bool" where
  "magic_archive buf =
     (take 2 buf = [31, 139] \<or> take 5 buf = [253, 55, 122, 88, 90] \<or>
      take 4 buf = [40, 181, 47, 253] \<or> take 5 (drop 257 buf) = [117, 115, 116, 97, 114])"

text \<open>A stand-in for the JSON codec: a manifest is written as the digest of its config.\<close>

definition sample_Decode :: "byte list \<Rightarrow> cause + Manifest" where
  "sample_Decode bs =
     (if bs = [] then Inl DecodeError
      else Inr \<lparr>SchemaVersion = 2,
                ManifestMediaType = ''application/vnd.docker.distribution.manifest.v2+json'',
                Config = \<lparr>MediaType = ''application/vnd.docker.container.image.v1+json'',
                           Digest = map char_of bs, DSize = 0, Annotations = []\<rparr>,
                Layers = []\<rparr>)"

definition sample_Encode :: "Manifest \<Rightarrow> byte list" where
  "sample_Encode m = map of_char (Digest (Config m))"

definition sample_libs :: libs where
  "sample_libs = \<lparr>digestValid = grammar_Digest, IsArchive = magic_archive,
                    Decode = sample_Decode, Encode = sample_Encode\<rparr>"

text \<open>A blob directory that holds two layer files, used to run the definitions.\<close>

definition two_layers :: fs where
  "two_layers =
     [([''testdata''], Dir), ([''testdata'', ''repo''], Dir),
      ([''testdata'', ''repo'', ''sha256:ab''], Dir),
      ([''testdata'', ''repo'', ''sha256:ab'', ''layer.tar.gz''], File [31, 139, 8]),
      ([''testdata'', ''repo'', ''sha256:ab'', ''layer.json''], File [123, 125])]"

text \<open>A repository with nothing in it, and two request bodies.\<close>

definition empty_repo :: fs where
  "empty_repo = [([''testdata''], Dir), ([''testdata'', ''repo''], Dir)]"

definition gzip_body :: reader where
  "gzip_body = \<lparr>first = 8192, payload = [31, 139, 8, 0], err_at = None\<rparr>"

definition json_body :: reader where
  "json_body = \<lparr>first = 8192, payload = [123, 125], err_at = None\<rparr>"

text \<open>A blob directory that holds one file, which is not an archive.\<close>

definition one_blob :: fs where
  "one_blob =
     [([''testdata''], Dir), ([''testdata'', ''repo''], Dir),
      ([''testdata'', ''repo'', ''sha256:ab''], Dir),
      ([''testdata'', ''repo'', ''sha256:ab'', ''layer.json''], File [91, 93])]"




text \<open>A \<open>digest.Parse\<close> that, as the library does for sha256, wants 64 hexadecimal digits.\<close>

definition strict_libs :: libs where
  "strict_libs = sample_libs\<lparr>digestValid := (\<lambda>s. grammar_Digest s \<and> length s = 71)\<rparr>"

text \<open>The manifest that the stand-in codec reads from the bytes of \<open>sha256:aa\<close>.\<close>

definition sample_manifest :: Manifest where
  "sample_manifest =
     \<lparr>SchemaVersion = 2,
      ManifestMediaType = ''application/vnd.docker.distribution.manifest.v2+json'',
      Config = \<lparr>MediaType = ''application/vnd.docker.container.image.v1+json'',
                 Digest = ''sha256:aa'', DSize = 0, Annotations = []\<rparr>,
      Layers = []\<rparr>"

text \<open>A GET request for a path, with no query and an empty body.\<close>

definition get_request :: "string \<Rightarrow> request" where
  "get_request p = \<lparr>rmethod = ''GET'', rpath = p, digest_query = [],
                    rbody = \<lparr>first = 0, payload = [], err_at = None\<rparr>\<rparr>"

section \<open>Directory listings\<close>

lemma set_entries:
  "set (entries fs dir) = {n. map_of fs (dir @ [n]) \<noteq> None}"
proof (intro set_eqI iffI)
  fix n assume "n \<in> set (entries fs dir)"
  then obtain p v where pv: "(p, v) \<in> set fs" "p \<noteq> []" "butlast p = dir" "n = last p"
    by (auto simp: entries_def)
  from pv(2) have "butlast p @ [last p] = p" by (rule append_butlast_last_id)
  with pv(3,4) have "dir @ [n] = p" by simp
  with pv(1) have "dir @ [n] \<in> fst ` set fs" by force
  then show "n \<in> {n. map_of fs (dir @ [n]) \<noteq> None}"
    by (simp add: map_of_eq_None_iff)
next
  fix n assume "n \<in> {n. map_of fs (dir @ [n]) \<noteq> None}"
  then have "dir @ [n] \<in> fst ` set fs"
    by (simp add: map_of_eq_None_iff)
  then obtain v where "(dir @ [n], v) \<in> set fs" by force
  then have "n \<in> (\<lambda>kv. last (fst kv)) ` {kv \<in> set fs. fst kv \<noteq> [] \<and> butlast (fst kv) = dir}"
    by force
  then show "n \<in> set (entries fs dir)"
    by (simp add: entries_def)
qed

lemma sorted_entries: "sorted (entries fs dir)"
  by (simp add: entries_def)

lemma distinct_entries: "distinct (entries fs dir)"
  by (simp add: entries_def)

lemma Name_fileinfo: "Name (fileinfo fs dir n) = n"
  by (simp add: fileinfo_def split: option.splits node.splits)

lemma lookup_child: "lookup fs (dir @ [n]) = map_of fs (dir @ [n])"
  by (simp add: lookup_def)

section \<open>What the system calls change\<close>

lemma entries_eq: "entries fs dir = sorted_list_of_set {n. lookup fs (dir @ [n]) \<noteq> None}"
proof -
  have "sorted_list_of_set (set (entries fs dir)) = entries fs dir"
    using sorted_entries distinct_entries by (rule sorted_list_of_set.idem_if_sorted_distinct)
  then show ?thesis by (simp add: set_entries lookup_child)
qed

lemma lookup_put: "p \<noteq> [] \<Longrightarrow> lookup (put fs p v) q = (if q = p then Some v else lookup fs q)"
  by (simp add: lookup_def put_def update_conv')




lemma Mkdir_ok:
  "lookup fs (butlast p) = Some Dir \<Longrightarrow> lookup fs p = None \<Longrightarrow> Mkdir fs p = (put fs p Dir, None)"
  by (simp add: Mkdir_def)



section \<open>Paths of the store\<close>

lemma splitPath_BasePath: "splitPath BasePath = [''testdata'']"
  by (simp add: splitPath_def BasePath_def)

lemma splitPath_layer: "splitPath (''layer'' @ detectExt L buf) = [''layer'' @ detectExt L buf]"
  by (simp add: splitPath_def detectExt_def)

lemma splitPath_manifest: "splitPath ''manifest.json'' = [''manifest.json'']"
  by (simp add: splitPath_def)

lemma PathJoinWithBase_Nil: "PathJoinWithBase name [] = ''testdata'' # splitPath name"
  by (simp add: PathJoinWithBase_def Join_def splitPath_BasePath)


lemma PathJoinWithBase_two:
  "PathJoinWithBase name [x, y] = JoinPath (PathJoinWithBase name [x]) y"
  by (simp add: PathJoinWithBase_def Join_def JoinPath_def)



lemma deliverable_unbroken: "\<not> broken r \<Longrightarrow> deliverable r = payload r"
  by (auto simp: broken_def deliverable_def split: option.splits)

lemma CreateLayer_Inr:
  assumes "CreateLayer L fs r path = (fs', Inr sz)"
  shows "lookup fs path = Some Dir \<and> \<not> broken r \<and> sz = int (length (payload r)) \<and>
         lookup fs (path @ [layer_name L r]) \<noteq> Some Dir \<and>
         (\<forall>q. lookup fs' q = (if q = path @ [layer_name L r] then Some (File (payload r)) else lookup fs q))"
proof -
  from assms obtain n where n: "Read_first r = Inr n"
    by (cases "Read_first r") (auto simp: CreateLayer_def)
  let ?F = "path @ [layer_name L r]"
  have F: "JoinPath path (''layer'' @ detectExt L (buffer_after r n)) = ?F"
    by (simp only: JoinPath_def splitPath_layer layer_name_def first_buffer_def n sum.case)
  from assms n F obtain fs1 where c: "Create fs ?F = Inr fs1"
    by (cases "Create fs ?F") (auto simp: CreateLayer_def Let_def)
  have nb: "\<not> broken r" using assms n F c by (auto simp: CreateLayer_def Let_def split: if_splits)
  have nle: "n \<le> length (deliverable r)" using n by (auto simp: Read_first_def split: if_splits)
  have w: "take n (buffer_after r n) @ drop n (deliverable r) = payload r"
    using nle nb by (simp add: buffer_after_def deliverable_unbroken)
  have fs': "fs' = put fs1 ?F (File (payload r))" and sz: "sz = int (length (payload r))"
    using assms n F c nb w by (auto simp: CreateLayer_def Let_def)
  from c have par: "lookup fs path = Some Dir" and nd: "lookup fs ?F \<noteq> Some Dir"
    and fs1: "fs1 = put fs ?F (File [])"
    by (auto simp: Create_def split: option.splits node.splits)
  have "\<forall>q. lookup fs' q = (if q = ?F then Some (File (payload r)) else lookup fs q)"
    by (simp add: fs' fs1 lookup_put)
  with par nb sz nd show ?thesis by simp
qed

section \<open>What a push leaves on disk\<close>


lemma PushBlobPatch_Inr:
  assumes "snd (PushBlobPatch L fs name U r) = Inr a"
  shows "\<exists>sz. CreateLayer L (fst (MkdirAll fs (PathJoinWithBase name [U]))) r (PathJoinWithBase name [U])
            = (fst (PushBlobPatch L fs name U r), Inr sz) \<and>
          a = \<lparr>status = 202,
               headers = Set (Set (Set [] ''Location'' (''/v2/'' @ name @ ''/blobs/uploads/'' @ U))
                          ''Docker-Upload-UUID'' U) ''Range'' (''0-'' @ FormatInt sz),
               body = []\<rparr>"
  using assms
  by (auto simp: PushBlobPatch_def Let_def split: prod.splits sum.splits)






section \<open>What the handlers answer for a stored layer\<close>


lemma canon_keys:
  "CanonicalMIMEHeaderKey ''Content-Type'' = ''Content-Type''"
  "CanonicalMIMEHeaderKey ''content-type'' = ''Content-Type''"
  "CanonicalMIMEHeaderKey ''accept-ranges'' = ''Accept-Ranges''"
  "CanonicalMIMEHeaderKey ''Content-Length'' = ''Content-Length''"
  "CanonicalMIMEHeaderKey ''Docker-Content-Digest'' = ''Docker-Content-Digest''"
  "CanonicalMIMEHeaderKey ''Docker-Distribution-Api-Version'' = ''Docker-Distribution-Api-Version''"
  "CanonicalMIMEHeaderKey ''X-Content-Type-Options'' = ''X-Content-Type-Options''"
  by code_simp+






section \<open>Running the stand-ins\<close>

lemma first_buffer_gzip: "first_buffer gzip_body = [31, 139, 8, 0] @ replicate 8188 0"
  by (simp add: first_buffer_def gzip_body_def Read_first_def broken_def deliverable_def buffer_after_def)

lemma first_buffer_json: "first_buffer json_body = [123, 125] @ replicate 8190 0"
  by (simp add: first_buffer_def json_body_def Read_first_def broken_def deliverable_def buffer_after_def)

lemma layer_name_gzip: "layer_name sample_libs gzip_body = ''layer.tar.gz''"
  by (simp add: layer_name_def first_buffer_gzip detectExt_def sample_libs_def magic_archive_def)

lemma layer_name_json: "layer_name sample_libs json_body = ''layer.json''"
  by (simp add: layer_name_def first_buffer_json detectExt_def sample_libs_def magic_archive_def
      eval_nat_numeral)

lemma CreateLayer_unbroken:
  assumes "\<not> broken r"
  shows "CreateLayer L fs r path =
     (case Create fs (path @ [layer_name L r]) of
        Inl e \<Rightarrow> (fs, Inl e)
      | Inr fs1 \<Rightarrow> (put fs1 (path @ [layer_name L r]) (File (payload r)),
                   Inr (int (length (payload r)))))"
proof -
  obtain n where n: "Read_first r = Inr n" and nle: "n \<le> length (deliverable r)"
    using assms by (auto simp: Read_first_def)
  have F: "JoinPath path (''layer'' @ detectExt L (buffer_after r n)) = path @ [layer_name L r]"
    by (simp only: JoinPath_def splitPath_layer layer_name_def first_buffer_def n sum.case)
  have w: "take n (buffer_after r n) @ drop n (deliverable r) = payload r"
    using nle assms by (simp add: buffer_after_def deliverable_unbroken)
  show ?thesis
    unfolding CreateLayer_def n sum.case Let_def F w using assms by (simp split: sum.splits)
qed

lemma unbroken_bodies: "\<not> broken gzip_body" "\<not> broken json_body"
  by (simp_all add: broken_def gzip_body_def json_body_def)

lemmas CreateLayer_gzip = CreateLayer_unbroken[OF unbroken_bodies(1), where L = sample_libs, unfolded layer_name_gzip]
lemmas CreateLayer_json = CreateLayer_unbroken[OF unbroken_bodies(2), where L = sample_libs, unfolded layer_name_json]

section \<open>Requests on a directory that exists, or does not\<close>

lemma MkdirAll_existing: "lookup fs p = Some Dir \<Longrightarrow> MkdirAll fs p = (fs, None)"
  by (cases "rev p") (simp_all add: MkdirAll_def)


lemma JoinPath_manifest: "JoinPath dir ''manifest.json'' = dir @ [''manifest.json'']"
  by (simp add: JoinPath_def splitPath_manifest)



section \<open>PickupFileinfo\<close>

text \<open>
  C10. \<open>PickupFileinfo\<close> is deterministic on a directory with several entries: for a
  readable directory with at least one entry it returns the entry whose name is the least
  in the order of strings (the listing is sorted by filename), and it returns an error
  exactly when the directory is empty or cannot be read.
\<close>

theorem PickupFileinfo_least_entry:
  "(lookup fs dir = Some Dir \<and> (\<exists>n. lookup fs (dir @ [n]) \<noteq> None) \<longrightarrow>
      (\<exists>fi. PickupFileinfo fs dir = Inr fi \<and> fi = fileinfo fs dir (Name fi) \<and>
         lookup fs (dir @ [Name fi]) \<noteq> None \<and>
         (\<forall>n. lookup fs (dir @ [n]) \<noteq> None \<longrightarrow> Name fi \<le> n)))
   \<and> (isl (PickupFileinfo fs dir) \<longleftrightarrow>
        (isl (ReadDir fs dir) \<or> (\<forall>n. lookup fs (dir @ [n]) = None)))
   \<and> (isl (ReadDir fs dir) \<longleftrightarrow> lookup fs dir \<noteq> Some Dir)"
proof (intro conjI impI)
  assume a: "lookup fs dir = Some Dir \<and> (\<exists>n. lookup fs (dir @ [n]) \<noteq> None)"
  then obtain m where "m \<in> set (entries fs dir)"
    by (auto simp: set_entries lookup_child)
  then obtain e es where es: "entries fs dir = e # es"
    by (cases "entries fs dir") auto
  have srt: "sorted (e # es)" using sorted_entries[of fs dir] es by simp
  have mem: "\<And>n. lookup fs (dir @ [n]) \<noteq> None \<Longrightarrow> n \<in> set (e # es)"
    using set_entries[of fs dir] es by (simp add: lookup_child)
  have e_in: "lookup fs (dir @ [e]) \<noteq> None"
    using set_entries[of fs dir] es by (auto simp: lookup_child)
  have pick: "PickupFileinfo fs dir = Inr (fileinfo fs dir e)"
    using a es by (simp add: PickupFileinfo_def ReadDir_def)
  have least: "\<forall>n. lookup fs (dir @ [n]) \<noteq> None \<longrightarrow> e \<le> n"
  proof (intro allI impI)
    fix n assume "lookup fs (dir @ [n]) \<noteq> None"
    then have "n \<in> set (e # es)" by (rule mem)
    with srt show "e \<le> n" by auto
  qed
  show "\<exists>fi. PickupFileinfo fs dir = Inr fi \<and> fi = fileinfo fs dir (Name fi) \<and>
         lookup fs (dir @ [Name fi]) \<noteq> None \<and>
         (\<forall>n. lookup fs (dir @ [n]) \<noteq> None \<longrightarrow> Name fi \<le> n)"
    using pick e_in least by (simp add: Name_fileinfo)
next
  have "entries fs dir = [] \<longleftrightarrow> (\<forall>n. lookup fs (dir @ [n]) = None)"
    using set_entries[of fs dir] by (auto simp: lookup_child)
  then show "isl (PickupFileinfo fs dir) \<longleftrightarrow>
        (isl (ReadDir fs dir) \<or> (\<forall>n. lookup fs (dir @ [n]) = None))"
    by (auto simp: PickupFileinfo_def ReadDir_def split: option.splits node.splits)
next
  show "isl (ReadDir fs dir) \<longleftrightarrow> lookup fs dir \<noteq> Some Dir"
    by (auto simp: ReadDir_def split: option.splits node.splits)
qed

theorem PickupFileinfo_least_entry_witness:
  "lookup two_layers [''testdata'', ''repo'', ''sha256:ab''] = Some Dir \<and>
   lookup two_layers ([''testdata'', ''repo'', ''sha256:ab''] @ [''layer.tar.gz'']) \<noteq> None \<and>
   (\<exists>fi. PickupFileinfo two_layers [''testdata'', ''repo'', ''sha256:ab''] = Inr fi \<and>
      Name fi \<le> ''layer.tar.gz'')"
proof -
  have h1: "lookup two_layers [''testdata'', ''repo'', ''sha256:ab''] = Some Dir"
    by (simp add: lookup_def two_layers_def)
  have h2: "lookup two_layers ([''testdata'', ''repo'', ''sha256:ab''] @ [''layer.tar.gz'']) \<noteq> None"
    by (simp add: lookup_def two_layers_def)
  show ?thesis
    using PickupFileinfo_least_entry [of two_layers "[''testdata'', ''repo'', ''sha256:ab'']"] h1 h2
    by blast
qed

section \<open>Responses of single requests\<close>



text \<open>
  C6. The response to a PATCH carries neither \<open>Docker-Distribution-Api-Version\<close> nor
  \<open>X-Content-Type-Options\<close>: its headers are \<open>Location\<close>, \<open>Docker-Upload-UUID\<close> and \<open>Range\<close>.
\<close>

theorem PushBlobPatch_response_without_version_headers:
  "snd (serve sample_libs ''u0'' empty_repo
          \<lparr>rmethod = ''PATCH'', rpath = ''/v2/repo/blobs/uploads/u1'', digest_query = [],
           rbody = gzip_body\<rparr>) =
   Sent \<lparr>status = 202,
         headers = [(''Location'', ''/v2/repo/blobs/uploads/u1''),
                    (''Docker-Upload-Uuid'', ''u1''), (''Range'', ''0-4'')],
         body = []\<rparr>"
  unfolding serve_def PushBlobPatch_def request.simps CreateLayer_gzip
  by code_simp

section \<open>Push, then pull\<close>







section \<open>Upload sessions\<close>




text \<open>
  C9, as stated, fails: a PATCH whose reference is the digest of the blob of \<open>one_blob\<close> and
  whose body is detected as the stored one is, writes no second file; it overwrites
  \<open>layer.json\<close>, and the directory holds one file as before.
\<close>

theorem patch_same_extension_counterexample:
  "lookup one_blob [''testdata'', ''repo'', ''sha256:ab''] = Some Dir \<and>
   entries one_blob [''testdata'', ''repo'', ''sha256:ab''] = [''layer.json''] \<and>
   PushBlobPatch sample_libs one_blob ''repo'' ''sha256:ab'' json_body =
    ([([''testdata''], Dir), ([''testdata'', ''repo''], Dir),
      ([''testdata'', ''repo'', ''sha256:ab''], Dir),
      ([''testdata'', ''repo'', ''sha256:ab'', ''layer.json''], File [123, 125])],
     Inr \<lparr>status = 202,
           headers = [(''Location'', ''/v2/repo/blobs/uploads/sha256:ab''),
                      (''Docker-Upload-Uuid'', ''sha256:ab''), (''Range'', ''0-2'')],
           body = []\<rparr>) \<and>
   entries (fst (PushBlobPatch sample_libs one_blob ''repo'' ''sha256:ab'' json_body))
     [''testdata'', ''repo'', ''sha256:ab''] = [''layer.json'']"
  unfolding PushBlobPatch_def CreateLayer_json by code_simp

text \<open>
  C9, amended. The directory of a session, of a blob and of a tag is the same path
  \<open>PathJoinWithBase name [s]\<close> for the same string \<open>s\<close>. So a PATCH whose reference is the
  digest string of a blob that exists writes its layer file into the directory of the blob:
  the entries of the directory are those before and the name of the layer file, a second
  file when the detected extension is not that of the stored file, the stored file
  overwritten when it is; no other entry changes.
\<close>

theorem patch_into_blob_directory:
  assumes "lookup fs (PathJoinWithBase name [d]) = Some Dir"
    and "PushBlobPatch L fs name d r = (fs', Inr a)"
  shows "lookup fs' (PathJoinWithBase name [d] @ [layer_name L r]) = Some (File (payload r)) \<and>
         set (entries fs' (PathJoinWithBase name [d])) =
           insert (layer_name L r) (set (entries fs (PathJoinWithBase name [d]))) \<and>
         (\<forall>n. n \<noteq> layer_name L r \<longrightarrow>
            lookup fs' (PathJoinWithBase name [d] @ [n]) = lookup fs (PathJoinWithBase name [d] @ [n])) \<and>
         PathJoinWithBase name [d, ''manifest.json''] = PathJoinWithBase name [d] @ [''manifest.json'']"
proof -
  let ?N = "PathJoinWithBase name [d]"
  have m: "fst (MkdirAll fs ?N) = fs" using assms(1) by (simp add: MkdirAll_existing)
  from assms(2) have "snd (PushBlobPatch L fs name d r) = Inr a" by simp
  from PushBlobPatch_Inr[OF this] obtain sz where
    "CreateLayer L fs r ?N = (fs', Inr sz)" using assms(2) by (auto simp: m)
  from CreateLayer_Inr[OF this] have
    l: "\<And>q. lookup fs' q = (if q = ?N @ [layer_name L r] then Some (File (payload r)) else lookup fs q)"
    by simp
  show ?thesis
    by (auto simp: l set_entries lookup_child[symmetric] PathJoinWithBase_two JoinPath_manifest)
qed

text \<open>The theorem of C9 at a PATCH of \<open>gzip_body\<close> into the blob of \<open>one_blob\<close>.\<close>

theorem patch_into_blob_directory_witness:
  "lookup one_blob (PathJoinWithBase ''repo'' [''sha256:ab'']) = Some Dir \<and>
   entries one_blob (PathJoinWithBase ''repo'' [''sha256:ab'']) = [''layer.json''] \<and>
   layer_name sample_libs gzip_body = ''layer.tar.gz'' \<and>
   set (entries (fst (PushBlobPatch sample_libs one_blob ''repo'' ''sha256:ab'' gzip_body))
          (PathJoinWithBase ''repo'' [''sha256:ab''])) = {''layer.tar.gz'', ''layer.json''}"
proof -
  have h1: "lookup one_blob (PathJoinWithBase ''repo'' [''sha256:ab'']) = Some Dir" by code_simp
  have h2: "PushBlobPatch sample_libs one_blob ''repo'' ''sha256:ab'' gzip_body =
    (one_blob @ [([''testdata'', ''repo'', ''sha256:ab'', ''layer.tar.gz''], File [31, 139, 8, 0])],
     Inr \<lparr>status = 202,
           headers = [(''Location'', ''/v2/repo/blobs/uploads/sha256:ab''),
                      (''Docker-Upload-Uuid'', ''sha256:ab''), (''Range'', ''0-4'')],
           body = []\<rparr>)"
    unfolding PushBlobPatch_def CreateLayer_gzip by code_simp
  have h3: "entries one_blob (PathJoinWithBase ''repo'' [''sha256:ab'']) = [''layer.json'']" by code_simp
  show ?thesis
    using patch_into_blob_directory [OF h1 h2] h1 h3 by (simp add: layer_name_gzip h2)
qed

section \<open>Manifests\<close>

text \<open>
  C2. A manifest PUT with body \<open>M\<close> under a name and a tag that succeeds answers 201 with
  \<open>Docker-Content-Digest\<close> equal to the digest of the config of the parsed \<open>M\<close>, and the GET of
  the same name and tag that follows returns the encoding of the parsed \<open>M\<close>, whose parsed
  form is that of \<open>M\<close>. The JSON codec is a parameter; decoding is assumed to invert encoding
  on the parsed manifest.
\<close>

theorem manifest_put_then_get:
  assumes "PushManifestPut L fs name tag M = (fs', Inr a)"
    and "Decode L M = Inr m"
    and "Decode L (Encode L m) = Inr m"
  shows "status a = 201 \<and> Get (headers a) ''Docker-Content-Digest'' = Some (Digest (Config m)) \<and>
         (\<exists>g. PullingManifests fs' name tag = (fs', Inr g) \<and> status g = 200 \<and>
              body g = Encode L m \<and> Decode L (body g) = Decode L M)"
proof -
  let ?T = "PathJoinWithBase name [tag]"
  let ?F = "?T @ [''manifest.json'']"
  from assms(1,2) obtain fs2 where
    c: "Create (fst (MkdirAll fs ?T)) ?F = Inr fs2"
    and fs': "fs' = put fs2 ?F (File (Encode L m))"
    and a: "a = \<lparr>status = 201, headers = Set [] ''Docker-Content-Digest'' (Digest (Config m)), body = []\<rparr>"
    by (auto simp: PushManifestPut_def Let_def JoinPath_manifest split: sum.splits)
  have l: "lookup fs' ?F = Some (File (Encode L m))" by (simp add: fs' lookup_put)
  have p: "PathJoinWithBase name [tag, ''manifest.json''] = ?F"
    by (simp add: PathJoinWithBase_two JoinPath_manifest)
  have g: "PullingManifests fs' name tag =
     (fs', Inr \<lparr>status = 200,
         headers = Set (Set (Set [] ''Docker-Distribution-Api-Version'' ''registry/2.0'')
                     ''X-Content-Type-Options'' ''nosniff'')
                     ''Content-Type'' ''application/vnd.docker.distribution.manifest.v2+json'',
         body = Encode L m\<rparr>)"
    by (simp add: PullingManifests_def Let_def p Stat_def Open_def l contents_def)
  show ?thesis
    unfolding g a using assms(2,3) by (simp add: Get_def Set_def canon_keys)
qed

text \<open>The theorem of C2 with the stand-in codec, at the tag \<open>v1\<close> in \<open>empty_repo\<close>.\<close>

theorem manifest_put_then_get_witness:
  "PushManifestPut sample_libs empty_repo ''repo'' ''v1'' (map of_char ''sha256:aa'') =
     (empty_repo @ [([''testdata'', ''repo'', ''v1''], Dir),
        ([''testdata'', ''repo'', ''v1'', ''manifest.json''], File (map of_char ''sha256:aa''))],
      Inr \<lparr>status = 201, headers = [(''Docker-Content-Digest'', ''sha256:aa'')], body = []\<rparr>) \<and>
   Decode sample_libs (map of_char ''sha256:aa'') = Inr sample_manifest \<and>
   Decode sample_libs (Encode sample_libs sample_manifest) = Inr sample_manifest \<and>
   (\<exists>g. PullingManifests
          (empty_repo @ [([''testdata'', ''repo'', ''v1''], Dir),
             ([''testdata'', ''repo'', ''v1'', ''manifest.json''], File (map of_char ''sha256:aa''))])
          ''repo'' ''v1'' =
         (empty_repo @ [([''testdata'', ''repo'', ''v1''], Dir),
             ([''testdata'', ''repo'', ''v1'', ''manifest.json''], File (map of_char ''sha256:aa''))],
          Inr g) \<and>
        Decode sample_libs (body g) = Inr sample_manifest)"
proof -
  have h1: "PushManifestPut sample_libs empty_repo ''repo'' ''v1'' (map of_char ''sha256:aa'') =
     (empty_repo @ [([''testdata'', ''repo'', ''v1''], Dir),
        ([''testdata'', ''repo'', ''v1'', ''manifest.json''], File (map of_char ''sha256:aa''))],
      Inr \<lparr>status = 201, headers = [(''Docker-Content-Digest'', ''sha256:aa'')], body = []\<rparr>)"
    by code_simp
  have h2: "Decode sample_libs (map of_char ''sha256:aa'') = Inr sample_manifest" by code_simp
  have h3: "Decode sample_libs (Encode sample_libs sample_manifest) = Inr sample_manifest"
    by code_simp
  show ?thesis
    using manifest_put_then_get [OF h1 h2 h3] h1 h2 h3 by auto
qed

section \<open>Routing\<close>

text \<open>
  C7, as stated, fails: the GET of \<open>/v2/myorg/myrepo/blobs/notadigest\<close> matches no route, since
  \<open>notadigest\<close> is not in the digest grammar; the answer is 404 without a body.
\<close>

theorem blob_route_digest_grammar_counterexample:
  "serve sample_libs ''u0'' empty_repo (get_request ''/v2/myorg/myrepo/blobs/notadigest'') =
     (empty_repo, Bare 404)"
  by code_simp

text \<open>
  C7, amended. A GET whose path matches neither the blob route nor the manifest route (as
  a path whose last segment is not in the digest grammar) is answered 404 with an empty
  body by the router. The answer is 400 with \<open>DIGEST_INVALID\<close> exactly when the blob route
  matches and \<open>digest.Parse\<close> rejects the segment that the route has bound.
\<close>

theorem blob_route_digest_grammar:
  "(p \<noteq> ''/v2/'' \<and> match_route ''/blobs/'' grammar_Digest p = None \<and>
    match_route ''/manifests/'' grammar_Reference p = None \<longrightarrow>
      serve L uuid fs (get_request p) = (fs, Bare 404)) \<and>
   (p \<noteq> ''/v2/'' \<and> match_route ''/blobs/'' grammar_Digest p = Some (name, d) \<and>
    \<not> digestValid L d \<longrightarrow>
      serve L uuid fs (get_request p) = (fs, Envelope 400 ''DIGEST_INVALID'')) \<and>
   (snd (serve L uuid fs (get_request p)) = Envelope 400 ''DIGEST_INVALID'' \<longrightarrow>
      (\<exists>name d. match_route ''/blobs/'' grammar_Digest p = Some (name, d) \<and> \<not> digestValid L d))"
proof (intro conjI impI)
  assume "p \<noteq> ''/v2/'' \<and> match_route ''/blobs/'' grammar_Digest p = None \<and>
    match_route ''/manifests/'' grammar_Reference p = None"
  then show "serve L uuid fs (get_request p) = (fs, Bare 404)"
    by (simp add: serve_def get_request_def)
next
  assume "p \<noteq> ''/v2/'' \<and> match_route ''/blobs/'' grammar_Digest p = Some (name, d) \<and>
    \<not> digestValid L d"
  then show "serve L uuid fs (get_request p) = (fs, Envelope 400 ''DIGEST_INVALID'')"
    by (simp add: serve_def get_request_def PullingBlobs_def digest_Parse_def Handler_def
        code_status_def code_string_def)
next
  assume a: "snd (serve L uuid fs (get_request p)) = Envelope 400 ''DIGEST_INVALID''"
  show "\<exists>name d. match_route ''/blobs/'' grammar_Digest p = Some (name, d) \<and> \<not> digestValid L d"
  proof (cases "p = ''/v2/''")
    case True
    with a show ?thesis
      by (simp add: serve_def get_request_def DeterminingSupport_def Handler_def Let_def)
  next
    case False
    show ?thesis
    proof (cases "match_route ''/blobs/'' grammar_Digest p")
      case (Some nd)
      obtain name d where nd: "nd = (name, d)" by (cases nd)
      have "\<not> digestValid L d"
      proof
        assume v: "digestValid L d"
        from a False Some nd v show False
          by (auto simp: serve_def get_request_def PullingBlobs_def digest_Parse_def Handler_def
              Let_def code_status_def code_string_def split: sum.splits if_splits)
      qed
      with Some nd show ?thesis by simp
    next
      case None
      with a False show ?thesis
        by (auto simp: serve_def get_request_def PullingManifests_def Handler_def Let_def
            code_status_def code_string_def split: option.splits sum.splits if_splits)
    qed
  qed
qed

text \<open>The theorem of C7 at two paths, with a \<open>digest.Parse\<close> stricter than the grammar.\<close>

theorem blob_route_digest_grammar_witness:
  "''/v2/myorg/myrepo/blobs/notadigest'' \<noteq> ''/v2/'' \<and>
   match_route ''/blobs/'' grammar_Digest ''/v2/myorg/myrepo/blobs/notadigest'' = None \<and>
   match_route ''/manifests/'' grammar_Reference ''/v2/myorg/myrepo/blobs/notadigest'' = None \<and>
   match_route ''/blobs/'' grammar_Digest ''/v2/repo/blobs/sha256:ab'' = Some (''repo'', ''sha256:ab'') \<and>
   \<not> digestValid strict_libs ''sha256:ab'' \<and>
   snd (serve strict_libs ''u0'' empty_repo (get_request ''/v2/myorg/myrepo/blobs/notadigest'')) = Bare 404 \<and>
   snd (serve strict_libs ''u0'' empty_repo (get_request ''/v2/repo/blobs/sha256:ab'')) =
     Envelope 400 ''DIGEST_INVALID''"
proof -
  have h1: "match_route ''/blobs/'' grammar_Digest ''/v2/myorg/myrepo/blobs/notadigest'' = None"
    by code_simp
  have h2: "match_route ''/manifests/'' grammar_Reference ''/v2/myorg/myrepo/blobs/notadigest'' = None"
    by code_simp
  have h3: "match_route ''/blobs/'' grammar_Digest ''/v2/repo/blobs/sha256:ab'' = Some (''repo'', ''sha256:ab'')"
    by code_simp
  have h4: "\<not> digestValid strict_libs ''sha256:ab''" by code_simp
  show ?thesis
    using blob_route_digest_grammar [where p = "''/v2/myorg/myrepo/blobs/notadigest''" and L = strict_libs
          and uuid = "''u0''" and fs = empty_repo]
      blob_route_digest_grammar [where p = "''/v2/repo/blobs/sha256:ab''" and name = "''repo''"
          and d = "''sha256:ab''" and L = strict_libs and uuid = "''u0''" and fs = empty_repo]
      h1 h2 h3 h4
    by simp
qed

end
